theory Spec2Isabelle
  imports Complex_Main "HOL-Library.Sublist"
begin

section \<open>Values held in the table\<close>

text \<open>
  The program (\<^verbatim>\<open>demo_graph.py\<close>) reads a GeoDataFrame and draws a folium map. A cell of the
  table is \<^verbatim>\<open>None\<close>, the float \<^verbatim>\<open>nan\<close>, a number, a string or a shapely geometry.
  Numbers are kept as exact integers (the metric columns are census counts); rounding of
  floats and the printing of a float as \<^verbatim>\<open>10.0\<close> are outside the model. A string is a
  list of code points below 256. A geometry is an object of an external library: it is
  represented by the two things the program observes of it, its text (\<^verbatim>\<open>str\<close>) and its
  \<^verbatim>\<open>__geo_interface__\<close> mapping.
\<close>

record geo_mapping =
  gtype :: string
  coordinates :: "(int \<times> int) list list list"

datatype geometry = Geometry (wkt: string) (geo_interface: geo_mapping)

datatype cell = PyNone | NaN | Num int | Str string | Geom geometry

datatype py_error = KeyError string | TypeError | AttributeError

text \<open>\<^verbatim>\<open>pd.isna\<close> on a scalar: true of \<^verbatim>\<open>None\<close> and of \<^verbatim>\<open>nan\<close> only.\<close>

fun isna :: "cell \<Rightarrow> bool" where
  "isna PyNone = True"
| "isna NaN = True"
| "isna _ = False"

text \<open>Python's \<^verbatim>\<open>str\<close> of an integer, as used by an f-string.\<close>

definition digit_char :: "nat \<Rightarrow> char" where
  "digit_char d = ''0123456789'' ! d"

fun str_of_nat :: "nat \<Rightarrow> string" where
  "str_of_nat n =
     (if n < 10 then [digit_char n] else str_of_nat (n div 10) @ [digit_char (n mod 10)])"

definition str_of_int :: "int \<Rightarrow> string" where
  "str_of_int i = (if i < 0 then CHR ''-'' # str_of_nat (nat (- i)) else str_of_nat (nat i))"

fun py_str :: "cell \<Rightarrow> string" where
  "py_str PyNone = ''None''"
| "py_str NaN = ''nan''"
| "py_str (Num i) = str_of_int i"
| "py_str (Str s) = s"
| "py_str (Geom g) = wkt g"

section \<open>The table\<close>

text \<open>
  A DataFrame is rectangular: every row has one cell for each column label. A row is a
  function from labels to cells that is read at the table's columns only; reading any
  other label raises \<^verbatim>\<open>KeyError\<close>. Column labels are strings and no label occurs twice.
\<close>

type_synonym row = "string \<Rightarrow> cell"

record gdf =
  columns :: "string list"
  rows :: "row list"

text \<open>\<^verbatim>\<open>row[label]\<close> on a row produced by \<^verbatim>\<open>iterrows\<close>.\<close>

definition row_getitem :: "string list \<Rightarrow> row \<Rightarrow> string \<Rightarrow> py_error + cell" where
  "row_getitem cols r k = (if k \<in> set cols then Inr (r k) else Inl (KeyError k))"

text \<open>\<^verbatim>\<open>gdf[variable]\<close>: the cells of one column, in row order.\<close>

definition gdf_getitem :: "gdf \<Rightarrow> string \<Rightarrow> py_error + cell list" where
  "gdf_getitem g k =
     (if k \<in> set (columns g) then Inr (map (\<lambda>r. r k) (rows g)) else Inl (KeyError k))"

text \<open>
  \<^verbatim>\<open>Series.min()\<close> and \<^verbatim>\<open>Series.max()\<close> with pandas' default \<^verbatim>\<open>skipna=True\<close>: missing
  entries are left out; with nothing left the result is \<^verbatim>\<open>nan\<close>; a present entry that is
  not a number makes the reduction (or the arithmetic that follows it) raise
  \<^verbatim>\<open>TypeError\<close>.
\<close>

fun is_num :: "cell \<Rightarrow> bool" where
  "is_num (Num _) = True"
| "is_num _ = False"

fun num_of :: "cell \<Rightarrow> int" where
  "num_of (Num i) = i"
| "num_of _ = 0"

definition present :: "cell list \<Rightarrow> cell list" where
  "present vs = filter (\<lambda>v. \<not> isna v) vs"

definition series_reduce :: "(int \<Rightarrow> int \<Rightarrow> int) \<Rightarrow> cell list \<Rightarrow> py_error + cell" where
  "series_reduce f vs =
     (if \<not> list_all is_num (present vs) then Inl TypeError
      else case map num_of (present vs) of
             [] \<Rightarrow> Inr NaN
           | x # xs \<Rightarrow> Inr (Num (fold f xs x)))"

definition series_min :: "cell list \<Rightarrow> py_error + cell" where
  "series_min vs = series_reduce min vs"

definition series_max :: "cell list \<Rightarrow> py_error + cell" where
  "series_max vs = series_reduce max vs"

section \<open>Labels of the metric columns\<close>

text \<open>\<^verbatim>\<open>str.startswith\<close>.\<close>

definition startswith :: "string \<Rightarrow> string \<Rightarrow> bool" where
  "startswith s p = (take (length p) s = p)"

text \<open>\<^verbatim>\<open>s.split(sep, maxsplit)\<close> for a separator of one character.\<close>

fun split :: "char \<Rightarrow> nat \<Rightarrow> string \<Rightarrow> string list" where
  "split sep 0 s = [s]"
| "split sep (Suc n) s =
     (if sep \<in> set s
      then takeWhile (\<lambda>c. c \<noteq> sep) s # split sep n (tl (dropWhile (\<lambda>c. c \<noteq> sep) s))
      else [s])"

text \<open>
  \<^verbatim>\<open>str.isspace\<close> on one code point below 256: tab to carriage return, the four
  separators 28 to 31, the space, NEL (133) and the no-break space (160).
\<close>

definition is_space :: "char \<Rightarrow> bool" where
  "is_space c = (of_char c \<in> {9, 10, 11, 12, 13, 28, 29, 30, 31, 32, 133, 160 :: nat})"

text \<open>\<^verbatim>\<open>str.strip()\<close>.\<close>

definition strip :: "string \<Rightarrow> string" where
  "strip s = rev (dropWhile is_space (rev (dropWhile is_space s)))"

text \<open>
  \<^verbatim>\<open>extract_variable_labels\<close>: one dictionary entry for each column whose name starts with
  \<^verbatim>\<open>P12_\<close>. The loop over the columns is the recursion; the dictionary is the accumulator.
\<close>

fun extract_loop :: "string list \<Rightarrow> (string \<rightharpoonup> string) \<Rightarrow> (string \<rightharpoonup> string)" where
  "extract_loop [] variable_labels = variable_labels"
| "extract_loop (col # cols) variable_labels =
     (if startswith col ''P12_''
      then let parts = split (CHR ''_'') 2 col;
               label = (if length parts = 3 then strip (parts ! 2) else col)
           in extract_loop cols (variable_labels(col \<mapsto> label))
      else extract_loop cols variable_labels)"

definition extract_variable_labels :: "gdf \<Rightarrow> (string \<rightharpoonup> string)" where
  "extract_variable_labels g = extract_loop (columns g) Map.empty"

section \<open>The colour scale\<close>

text \<open>
  The results of \<^verbatim>\<open>min()\<close> and \<^verbatim>\<open>max()\<close> are numbers or \<^verbatim>\<open>nan\<close>. Python's \<^verbatim>\<open>==\<close> is
  false whenever an operand is \<^verbatim>\<open>nan\<close>; arithmetic on \<^verbatim>\<open>nan\<close> gives \<^verbatim>\<open>nan\<close>.

  The numbers are numpy scalars, so \<^verbatim>\<open>min_val - 1\<close> and \<^verbatim>\<open>max_val + 1\<close> are fixed-width
  arithmetic. In an \<^verbatim>\<open>int64\<close> column the result wraps round at the ends of the type, which
  \<open>wrap64\<close> writes out. In a \<^verbatim>\<open>float64\<close> column (any column with a missing entry) the
  result is exact as long as it stays within \<open>2 ^ 53\<close> in magnitude and is rounded beyond;
  the rounding is not modelled. The two agree with exact arithmetic strictly between
  \<open>- 2 ^ 53\<close> and \<open>2 ^ 53\<close>, and what is proved about a widened domain is stated for metric
  values in that range only.
\<close>

definition wrap64 :: "int \<Rightarrow> int" where
  "wrap64 x = (x + 2 ^ 63) mod 2 ^ 64 - 2 ^ 63"

fun py_eq :: "cell \<Rightarrow> cell \<Rightarrow> bool" where
  "py_eq (Num a) (Num b) = (a = b)"
| "py_eq _ _ = False"

fun py_add :: "cell \<Rightarrow> int \<Rightarrow> cell" where
  "py_add (Num a) k = Num (wrap64 (a + k))"
| "py_add v k = v"

text \<open>
  The object returned by branca's \<^verbatim>\<open>cm.linear.OrRd_09.scale(vmin, vmax)\<close>: its domain and
  its caption. The colour it gives a value (\<^verbatim>\<open>colormap(val)\<close>) is computed by the external
  library; the functions below take it as the parameter \<open>ramp\<close>.
\<close>

record colormap =
  vmin :: cell
  vmax :: cell
  caption :: string

type_synonym ramp = "colormap \<Rightarrow> cell \<Rightarrow> string"

text \<open>\<^verbatim>\<open>d.get(key, default)\<close> on a dictionary.\<close>

definition dict_get :: "('k \<rightharpoonup> 'v) \<Rightarrow> 'k \<Rightarrow> 'v \<Rightarrow> 'v" where
  "dict_get d k dflt = (case d k of None \<Rightarrow> dflt | Some v \<Rightarrow> v)"

definition create_colormap ::
  "gdf \<Rightarrow> string \<Rightarrow> (string \<rightharpoonup> string) \<Rightarrow> py_error + colormap" where
  "create_colormap g variable variable_labels =
     (case gdf_getitem g variable of
        Inl e \<Rightarrow> Inl e
      | Inr col \<Rightarrow>
          (case series_min col of
             Inl e \<Rightarrow> Inl e
           | Inr min_val \<Rightarrow>
               (case series_max col of
                  Inl e \<Rightarrow> Inl e
                | Inr max_val \<Rightarrow>
                    Inr \<lparr>vmin = (if py_eq min_val max_val then py_add min_val (- 1) else min_val),
                         vmax = (if py_eq min_val max_val then py_add max_val 1 else max_val),
                         caption = ''Demographic Metric: '' @ dict_get variable_labels variable variable\<rparr>)))"

section \<open>The detail panel\<close>

text \<open>The two f-strings of \<^verbatim>\<open>create_html_content\<close>, as functions of their holes.\<close>

definition no_charts_html :: "string \<Rightarrow> string" where
  \<open>no_charts_html district_name =
     ''\<newline>'' @
     ''            <div style="width: 300px;">\<newline>'' @
     ''                <h4>'' @ district_name @ ''</h4>\<newline>'' @
     ''                <p>No data available for bar charts.</p>\<newline>'' @
     ''            </div>\<newline>'' @
     ''            ''\<close>

definition charts_html :: "string \<Rightarrow> string \<Rightarrow> string \<Rightarrow> string" where
  \<open>charts_html district_name female_img male_img =
     ''\<newline>'' @
     ''            <div style="width: 300px;">\<newline>'' @
     ''                <h4>'' @ district_name @ ''</h4>\<newline>'' @
     ''                <div style="display: flex; flex-direction: column; gap: 10px;">\<newline>'' @
     ''                    <div>\<newline>'' @
     ''                        <h5>Female Age Data</h5>\<newline>'' @
     ''                        <img src="data:image/png;base64,'' @ female_img @
         ''" style="width: 280px; height: 150px;">\<newline>'' @
     ''                    </div>\<newline>'' @
     ''                    <div>\<newline>'' @
     ''                        <h5>Male Age Data</h5>\<newline>'' @
     ''                        <img src="data:image/png;base64,'' @ male_img @
         ''" style="width: 280px; height: 150px;">\<newline>'' @
     ''                    </div>\<newline>'' @
     ''                </div>\<newline>'' @
     ''            </div>\<newline>'' @
     ''            ''\<close>

text \<open>
  A row handed out by \<^verbatim>\<open>iterrows\<close> is a Series: its index (the table's columns) and its
  cells. pandas builds that Series anew from the values of the row and infers its dtype:
  when the values are strings and missing entries only, with at least one string, the
  Series gets the string dtype, whose missing value is \<^verbatim>\<open>nan\<close>, so a \<^verbatim>\<open>None\<close> of the table
  arrives as \<^verbatim>\<open>nan\<close>. Any other row keeps its cells as they are.
\<close>

type_synonym series = "string list \<times> row"

fun is_text :: "cell \<Rightarrow> bool" where
  "is_text (Str _) = True"
| "is_text _ = False"

definition text_row :: "string list \<Rightarrow> row \<Rightarrow> bool" where
  "text_row cols r =
     (list_ex (\<lambda>k. is_text (r k)) cols \<and> list_all (\<lambda>k. is_text (r k) \<or> isna (r k)) cols)"

definition rebuild_row :: "string list \<Rightarrow> row \<Rightarrow> row" where
  "rebuild_row cols r = (if text_row cols r then (\<lambda>k. if isna (r k) then NaN else r k) else r)"

definition iterrows :: "gdf \<Rightarrow> series list" where
  "iterrows g = map (\<lambda>r. (columns g, rebuild_row (columns g) r)) (rows g)"

definition getitem :: "series \<Rightarrow> string \<Rightarrow> py_error + cell" where
  "getitem s k = row_getitem (fst s) (snd s) k"

definition create_html_content :: "series \<Rightarrow> py_error + string" where
  "create_html_content row =
     (case getitem row ''Female_BarChart'' of
        Inl e \<Rightarrow> Inl e
      | Inr female_img \<Rightarrow>
          (case getitem row ''Male_BarChart'' of
             Inl e \<Rightarrow> Inl e
           | Inr male_img \<Rightarrow>
               (case getitem row ''NAME'' of
                  Inl e \<Rightarrow> Inl e
                | Inr district_name \<Rightarrow>
                    (if female_img = PyNone \<or> male_img = PyNone
                     then Inr (no_charts_html (py_str district_name))
                     else Inr (charts_html (py_str district_name)
                                 (py_str female_img) (py_str male_img))))))"

section \<open>Features and their style\<close>

record feature =
  ftype :: string
  properties :: "(string \<times> cell) list"
  geometry :: geo_mapping

record style =
  fillColor :: string
  color :: string
  weight :: real
  fillOpacity :: real

record highlight =
  hl_weight :: real
  hl_color :: string

text \<open>
  \<^verbatim>\<open>style_function\<close> is a closure over \<^verbatim>\<open>variable\<close> and \<^verbatim>\<open>colormap\<close>, neither of which is
  assigned again after the closure is made; they are its first arguments here.
\<close>

definition style_function :: "ramp \<Rightarrow> string \<Rightarrow> colormap \<Rightarrow> feature \<Rightarrow> style" where
  "style_function rmp variable cmap feat =
     (let val = (case map_of (properties feat) variable of None \<Rightarrow> PyNone | Some v \<Rightarrow> v);
          clr = (if isna val then ''grey'' else rmp cmap val)
      in \<lparr>fillColor = clr, color = ''black'', weight = 0.5, fillOpacity = 0.7\<rparr>)"

definition highlight_function :: "feature \<Rightarrow> highlight" where
  "highlight_function x = \<lparr>hl_weight = 3, hl_color = ''blue''\<rparr>"

section \<open>The map\<close>

record iframe =
  html :: string
  width :: nat
  height :: nat

record popup =
  content :: iframe
  max_width :: nat

text \<open>
  A \<^verbatim>\<open>folium.GeoJson\<close> layer keeps the feature, the two style closures, the tooltip and the
  popup; folium applies the style closure to the layer's own feature when it draws it.
\<close>

record geojson =
  data :: feature
  style_fn :: "feature \<Rightarrow> style"
  highlight_fn :: "feature \<Rightarrow> highlight"
  tooltip :: cell
  popup_of :: popup

datatype child = ColormapChild colormap | GeoJsonChild geojson | LayerControl

record folium_map =
  location :: "real \<times> real"
  zoom_start :: nat
  children :: "child list"

text \<open>\<^verbatim>\<open>child.add_to(m)\<close> appends the child to the map.\<close>

definition add_to :: "child \<Rightarrow> folium_map \<Rightarrow> folium_map" where
  "add_to c m = m\<lparr>children := children m @ [c]\<rparr>"

text \<open>
  \<^verbatim>\<open>Series.drop(labels)\<close> returns a new Series without the labels and leaves the receiver as
  it was (\<^verbatim>\<open>inplace\<close> is not set); a label that is not in the index raises \<^verbatim>\<open>KeyError\<close>.
  \<^verbatim>\<open>to_dict\<close> lists the entries in index order.
\<close>

definition drop_labels :: "series \<Rightarrow> string list \<Rightarrow> py_error + series" where
  "drop_labels s labels =
     (case filter (\<lambda>l. l \<notin> set (fst s)) labels of
        [] \<Rightarrow> Inr (filter (\<lambda>k. k \<notin> set labels) (fst s), snd s)
      | l # _ \<Rightarrow> Inl (KeyError l))"

definition to_dict :: "series \<Rightarrow> (string \<times> cell) list" where
  "to_dict s = map (\<lambda>k. (k, snd s k)) (fst s)"

text \<open>
  The body of the loop of \<^verbatim>\<open>generate_map\<close> for one row: \<open>None\<close> when the row is skipped
  (\<^verbatim>\<open>continue\<close>), otherwise the layer that is added to the map. Reading
  \<^verbatim>\<open>__geo_interface__\<close> of a cell that is not a geometry raises \<^verbatim>\<open>AttributeError\<close>.
\<close>

definition row_layer :: "ramp \<Rightarrow> string \<Rightarrow> colormap \<Rightarrow> series \<Rightarrow> py_error + geojson option" where
  "row_layer rmp variable cmap row =
     (case getitem row ''geometry'' of
        Inl e \<Rightarrow> Inl e
      | Inr geom \<Rightarrow>
          if geom = PyNone then Inr None
          else
            (case create_html_content row of
               Inl e \<Rightarrow> Inl e
             | Inr html_content \<Rightarrow>
                 (case drop_labels row [''geometry'', ''Female_BarChart'', ''Male_BarChart''] of
                    Inl e \<Rightarrow> Inl e
                  | Inr dropped \<Rightarrow>
                      (case geom of
                         Geom shape \<Rightarrow>
                           (case getitem row ''NAME'' of
                              Inl e \<Rightarrow> Inl e
                            | Inr name \<Rightarrow>
                                Inr (Some
                                  \<lparr>data = \<lparr>ftype = ''Feature'', properties = to_dict dropped,
                                            geometry = geo_interface shape\<rparr>,
                                   style_fn = style_function rmp variable cmap,
                                   highlight_fn = highlight_function,
                                   tooltip = name,
                                   popup_of = \<lparr>content = \<lparr>html = html_content, width = 320,
                                                          height = 400\<rparr>,
                                               max_width = 320\<rparr>\<rparr>))
                       | _ \<Rightarrow> Inl AttributeError))))"

text \<open>
  The loop. Its state is the table the caller passed (an object shared with the caller)
  and the map under construction; an exception leaves the loop with the table as it is
  at that point.
\<close>

fun add_rows ::
  "ramp \<Rightarrow> string \<Rightarrow> colormap \<Rightarrow> series list \<Rightarrow> gdf \<Rightarrow> folium_map \<Rightarrow> gdf \<times> (py_error + folium_map)"
where
  "add_rows rmp variable cmap [] g m = (g, Inr m)"
| "add_rows rmp variable cmap (row # rest) g m =
     (case row_layer rmp variable cmap row of
        Inl e \<Rightarrow> (g, Inl e)
      | Inr None \<Rightarrow> add_rows rmp variable cmap rest g m
      | Inr (Some layer) \<Rightarrow> add_rows rmp variable cmap rest g (add_to (GeoJsonChild layer) m))"

definition generate_map ::
  "ramp \<Rightarrow> gdf \<Rightarrow> string \<Rightarrow> (string \<rightharpoonup> string) \<Rightarrow> gdf \<times> (py_error + folium_map)" where
  "generate_map rmp g variable variable_labels =
     (let m = \<lparr>location = (37.8, - 96), zoom_start = 4, children = []\<rparr>
      in case create_colormap g variable variable_labels of
           Inl e \<Rightarrow> (g, Inl e)
         | Inr cmap \<Rightarrow>
             (case add_rows rmp variable cmap (iterrows g) g (add_to (ColormapChild cmap) m) of
                (g', Inl e) \<Rightarrow> (g', Inl e)
              | (g', Inr m') \<Rightarrow> (g', Inr (add_to LayerControl m'))))"

section \<open>The page\<close>

text \<open>
  What \<^verbatim>\<open>main\<close> does to the page, in order. \<^verbatim>\<open>st.stop()\<close> ends the run; an exception that
  nothing catches ends it too. The table is the one \<^verbatim>\<open>load_data\<close> returned.
\<close>

datatype st_event =
    Markdown string
  | StError string
  | StStop
  | StWrite string
  | FoliumStatic folium_map nat nat
  | Uncaught py_error

definition custom_style :: string where
  \<open>custom_style =
     ''\<newline>'' @
     ''        <style>\<newline>'' @
     ''        /* Set app background color to white */\<newline>'' @
     ''        .stApp {\<newline>'' @
     ''            background-color: #FFFFFF;\<newline>'' @
     ''        }\<newline>'' @
     ''        </style>\<newline>'' @
     ''        ''\<close>

definition set_custom_style :: "st_event list" where
  "set_custom_style = [Markdown custom_style]"

definition PRESET_VARIABLE :: string where
  "PRESET_VARIABLE = ''P12_027N''"

text \<open>
  \<^verbatim>\<open>main\<close> with the preset metric code as a parameter: the source fixes it in a local
  constant that the user is told to replace.
\<close>

definition main_with :: "ramp \<Rightarrow> string \<Rightarrow> gdf \<Rightarrow> st_event list" where
  "main_with rmp preset g =
     (let variable_labels = extract_variable_labels g
      in if preset \<notin> set (columns g)
         then set_custom_style @
              [StError (''Preset variable '' @ [CHR 0x27] @ preset @ [CHR 0x27] @
                        '' not found in the data.''),
               StStop]
         else
           (let preset_label = dict_get variable_labels preset preset;
                shown = set_custom_style @
                        [StWrite (''**Color-Coding Demographic Metric:** '' @ preset_label)]
            in case snd (generate_map rmp g preset variable_labels) of
                 Inl e \<Rightarrow> shown @ [Uncaught e]
               | Inr folium_map \<Rightarrow>
                   shown @
                   [FoliumStatic folium_map 1200 800,
                    Markdown ''---'',
                    Markdown ''**Data Source:** 2020 Census API | **App Developed by:** Your Name'']))"

definition main :: "ramp \<Rightarrow> gdf \<Rightarrow> st_event list" where
  "main rmp g = main_with rmp PRESET_VARIABLE g"

section \<open>Observations used by the properties\<close>

text \<open>The feature collection of a map: its GeoJson layers, in the order they were added.\<close>

fun feature_collection :: "child list \<Rightarrow> geojson list" where
  "feature_collection [] = []"
| "feature_collection (GeoJsonChild l # cs) = l # feature_collection cs"
| "feature_collection (_ # cs) = feature_collection cs"

text \<open>The style each layer is drawn with, and the domain of each legend of the map.\<close>

definition feature_styles :: "folium_map \<Rightarrow> style list" where
  "feature_styles m = map (\<lambda>l. style_fn l (data l)) (feature_collection (children m))"

fun legend_domains :: "child list \<Rightarrow> (cell \<times> cell) list" where
  "legend_domains [] = []"
| "legend_domains (ColormapChild c # cs) = (vmin c, vmax c) # legend_domains cs"
| "legend_domains (_ # cs) = legend_domains cs"

text \<open>The rows that have a geometry, and the cells of the metric column.\<close>

definition has_geometry :: "row \<Rightarrow> bool" where
  "has_geometry r = (r ''geometry'' \<noteq> PyNone)"



fun is_geom :: "cell \<Rightarrow> bool" where
  "is_geom (Geom _) = True"
| "is_geom _ = False"

text \<open>
  A table that \<^verbatim>\<open>generate_map\<close> can draw: it has the five columns the function reads, every
  geometry cell is a geometry or \<^verbatim>\<open>None\<close>, a row whose geometry is \<^verbatim>\<open>None\<close> holds a present
  cell that is not text (so that its \<^verbatim>\<open>None\<close> is handed out as \<^verbatim>\<open>None\<close>), and every metric
  cell is missing or a number.
\<close>

definition drawable :: "gdf \<Rightarrow> string \<Rightarrow> bool" where
  "drawable g variable =
     (list_all (\<lambda>k. k \<in> set (columns g))
        [''geometry'', ''Female_BarChart'', ''Male_BarChart'', ''NAME'', variable] \<and>
      list_all (\<lambda>r. is_geom (r ''geometry'') \<or>
                     (r ''geometry'' = PyNone \<and>
                      list_ex (\<lambda>k. \<not> isna (r k) \<and> \<not> is_text (r k)) (columns g))) (rows g) \<and>
      list_all (\<lambda>r. isna (r variable) \<or> is_num (r variable)) (rows g))"

text \<open>
  Two tables hold the same region data when they have the same columns and their rows,
  taken in order, have the same cells at those columns.
\<close>

definition same_cells :: "string list \<Rightarrow> row \<Rightarrow> row \<Rightarrow> bool" where
  "same_cells cols r1 r2 = list_all (\<lambda>k. r1 k = r2 k) cols"

definition same_region_data :: "gdf \<Rightarrow> gdf \<Rightarrow> bool" where
  "same_region_data g1 g2 =
     (columns g1 = columns g2 \<and> list_all2 (same_cells (columns g1)) (rows g1) (rows g2))"

text \<open>The style a row with a geometry is drawn with, given the colour scale.\<close>

definition row_style :: "ramp \<Rightarrow> string \<Rightarrow> colormap \<Rightarrow> row \<Rightarrow> style" where
  "row_style rmp variable cmap r =
     \<lparr>fillColor = (if isna (r variable) then ''grey'' else rmp cmap (r variable)),
      color = ''black'', weight = 0.5, fillOpacity = 0.7\<rparr>"

text \<open>The property dictionary of a row: every column but the three dropped ones.\<close>

definition row_properties :: "string list \<Rightarrow> row \<Rightarrow> (string \<times> cell) list" where
  "row_properties cols r =
     map (\<lambda>k. (k, r k))
       (filter (\<lambda>k. k \<notin> set [''geometry'', ''Female_BarChart'', ''Male_BarChart'']) cols)"

text \<open>
  A layer drawn from a row: the row has a geometry, the layer carries its interchange
  mapping, the row's name as tooltip, and the row's property dictionary.
\<close>

definition drawn_from :: "string list \<Rightarrow> row \<Rightarrow> geojson \<Rightarrow> bool" where
  "drawn_from cols r l =
     (case r ''geometry'' of
        Geom shape \<Rightarrow>
          geometry (data l) = geo_interface shape \<and> tooltip l = r ''NAME'' \<and>
          properties (data l) = row_properties cols r
      | _ \<Rightarrow> False)"

section \<open>A small table\<close>

text \<open>
  Four districts: \<open>A\<close> and \<open>C\<close> with metric values 10 and 30, \<open>B\<close> with a missing value and
  a missing chart, \<open>D\<close> without a geometry.
\<close>

definition row_of :: "(string \<times> cell) list \<Rightarrow> row" where
  "row_of kvs = (\<lambda>k. case map_of kvs k of None \<Rightarrow> NaN | Some v \<Rightarrow> v)"

definition square :: geometry where
  "square = Geometry ''POLYGON ((0 0, 1 0, 1 1, 0 1, 0 0))''
              \<lparr>gtype = ''Polygon'', coordinates = [[[(0, 0), (1, 0), (1, 1), (0, 1), (0, 0)]]]\<rparr>"

definition demo_columns :: "string list" where
  "demo_columns =
     [''NAME'', ''geometry'', ''P12_027N'', ''P12_001N_ Total Population '',
      ''Female_BarChart'', ''Male_BarChart'']"

definition demo_row :: "string \<Rightarrow> cell \<Rightarrow> cell \<Rightarrow> cell \<Rightarrow> row" where
  "demo_row name geom val img =
     row_of [(''NAME'', Str name), (''geometry'', geom), (''P12_027N'', val),
             (''P12_001N_ Total Population '', Num 100),
             (''Female_BarChart'', img), (''Male_BarChart'', Str ''TQ=='')]"

definition demo_gdf :: gdf where
  "demo_gdf =
     \<lparr>columns = demo_columns,
      rows = [demo_row ''A'' (Geom square) (Num 10) (Str ''Rg==''),
              demo_row ''B'' (Geom square) NaN PyNone,
              demo_row ''C'' (Geom square) (Num 30) (Str ''Rg==''),
              demo_row ''D'' PyNone (Num 20) (Str ''Rg=='')]\<rparr>"

definition flat_gdf :: gdf where
  "flat_gdf =
     \<lparr>columns = demo_columns,
      rows = [demo_row ''A'' (Geom square) (Num 42) (Str ''Rg==''),
              demo_row ''B'' (Geom square) (Num 42) (Str ''Rg=='')]\<rparr>"

text \<open>
  A table whose second row has no geometry and, apart from missing entries, text only.
\<close>

definition text_gdf :: gdf where
  "text_gdf =
     \<lparr>columns = demo_columns,
      rows = [demo_row ''A'' (Geom square) (Num 10) (Str ''Rg==''),
              row_of [(''NAME'', Str ''Z''), (''geometry'', PyNone), (''P12_027N'', NaN),
                      (''Female_BarChart'', Str ''Rg==''), (''Male_BarChart'', Str ''TQ=='')]]\<rparr>"

text \<open>
  The same table with other values where no column is: the rows of \<open>demo_gdf\<close> answer
  \<^verbatim>\<open>nan\<close> off the columns, these answer a string.
\<close>

definition demo_gdf_alt :: gdf where
  "demo_gdf_alt =
     \<lparr>columns = demo_columns,
      rows = map (\<lambda>r k. if k \<in> set demo_columns then r k else Str ''elsewhere'') (rows demo_gdf)\<rparr>"

definition demo_ramp :: ramp where
  "demo_ramp cmap v = ''#'' @ py_str v"

section \<open>Auxiliary facts\<close>

lemma add_rows_frame: "fst (add_rows rmp v c rs g m) = g"
  by (induction rs arbitrary: m) (auto split: sum.splits option.splits)

lemma generate_map_frame: "fst (generate_map rmp g v l) = g"
proof (cases "create_colormap g v l")
  case (Inl e)
  then show ?thesis by (simp add: generate_map_def)
next
  case (Inr cmap)
  define m0 where "m0 = add_to (ColormapChild cmap)
     \<lparr>location = (37.8, - 96), zoom_start = 4, children = []\<rparr>"
  obtain g' r where ar: "add_rows rmp v cmap (iterrows g) g m0 = (g', r)"
    by (cases "add_rows rmp v cmap (iterrows g) g m0")
  with add_rows_frame[of rmp v cmap "iterrows g" g m0] have "g' = g" by simp
  with Inr ar show ?thesis
    by (cases r) (simp_all add: generate_map_def m0_def)
qed







lemma count_list_after_sep:
  "sep \<in> set s \<Longrightarrow>
   count_list s sep = Suc (count_list (tl (dropWhile (\<lambda>c. c \<noteq> sep) s)) sep)"
  by (induction s) auto

lemma split_length: "length (split sep n s) = Suc (min n (count_list s sep))"
proof (induction n arbitrary: s)
  case 0
  then show ?case by simp
next
  case (Suc n)
  show ?case
  proof (cases "sep \<in> set s")
    case False
    then show ?thesis by (simp add: count_list_0_iff)
  next
    case True
    then show ?thesis
      using Suc.IH[of "tl (dropWhile (\<lambda>c. c \<noteq> sep) s)"] count_list_after_sep[OF True]
      by simp
  qed
qed

lemma takeWhile_upto_sep: "sep \<notin> set a \<Longrightarrow> takeWhile (\<lambda>c. c \<noteq> sep) (a @ sep # r) = a"
  by (induction a) auto

lemma dropWhile_upto_sep: "sep \<notin> set a \<Longrightarrow> dropWhile (\<lambda>c. c \<noteq> sep) (a @ sep # r) = sep # r"
  by (induction a) auto

lemma split_three:
  assumes "sep \<notin> set a" and "sep \<notin> set b"
  shows "split sep 2 (a @ sep # b @ sep # c) = [a, b, c]"
proof -
  have "split sep (Suc (Suc 0)) (a @ sep # b @ sep # c) = [a, b, c]"
    using assms by (simp add: takeWhile_upto_sep dropWhile_upto_sep)
  then show ?thesis by (simp add: numeral_2_eq_2)
qed

lemma extract_loop_lookup:
  "extract_loop cols acc k =
     (if k \<in> set cols \<and> startswith k ''P12_''
      then Some (if length (split (CHR ''_'') 2 k) = 3 then strip (split (CHR ''_'') 2 k ! 2) else k)
      else acc k)"
  by (induction cols arbitrary: acc) (auto simp: Let_def)

lemma list_all_takeWhile: "list_all P (takeWhile P xs)"
  by (induction xs) auto

lemma rev_dropWhile_split: "xs = rev (dropWhile P (rev xs)) @ rev (takeWhile P (rev xs))"
proof -
  have "rev xs = takeWhile P (rev xs) @ dropWhile P (rev xs)" by simp
  then have "rev (rev xs) = rev (takeWhile P (rev xs) @ dropWhile P (rev xs))"
    by (rule arg_cong)
  then show ?thesis by (simp del: takeWhile_dropWhile_id)
qed

lemma strip_decomp:
  "\<exists>pre post. s = pre @ strip s @ post \<and> list_all is_space pre \<and> list_all is_space post"
proof -
  let ?t = "dropWhile is_space s"
  have 1: "s = takeWhile is_space s @ ?t" by simp
  have 2: "?t = strip s @ rev (takeWhile is_space (rev ?t))"
    unfolding strip_def by (rule rev_dropWhile_split)
  have "s = takeWhile is_space s @ strip s @ rev (takeWhile is_space (rev ?t))"
    using 1 2 by (simp del: takeWhile_dropWhile_id)
  moreover have "list_all is_space (takeWhile is_space s)"
    by (rule list_all_takeWhile)
  moreover have "list_all is_space (rev (takeWhile is_space (rev ?t)))"
    using list_all_takeWhile[of is_space "rev ?t"] by (simp add: list_all_iff)
  ultimately show ?thesis by blast
qed

lemma last_dropWhile: "dropWhile P xs \<noteq> [] \<Longrightarrow> last (dropWhile P xs) = last xs"
  by (induction xs) auto

lemma strip_ends:
  assumes "strip s \<noteq> []"
  shows "\<not> is_space (hd (strip s)) \<and> \<not> is_space (last (strip s))"
proof -
  define t where "t = dropWhile is_space s"
  define u where "u = dropWhile is_space (rev t)"
  have su: "strip s = rev u" by (simp add: strip_def u_def t_def)
  with assms have u: "u \<noteq> []" by simp
  have "\<not> is_space (hd u)"
    using u hd_dropWhile[of is_space "rev t"] by (simp add: u_def)
  then have l: "\<not> is_space (last (strip s))" by (simp add: su last_rev)
  have t: "t \<noteq> []" using u by (auto simp: u_def)
  have "\<not> is_space (hd t)"
    using t hd_dropWhile[of is_space s] by (simp add: t_def)
  moreover have "hd (strip s) = hd t"
    using last_dropWhile[of is_space "rev t"] u by (simp add: su hd_rev u_def last_rev)
  ultimately show ?thesis using l by simp
qed




lemma drop_three:
  assumes "''geometry'' \<in> set cols" "''Female_BarChart'' \<in> set cols" "''Male_BarChart'' \<in> set cols"
  shows "drop_labels (cols, r) [''geometry'', ''Female_BarChart'', ''Male_BarChart'']
         = Inr (filter (\<lambda>k. k \<notin> set [''geometry'', ''Female_BarChart'', ''Male_BarChart'']) cols, r)"
  using assms by (simp add: drop_labels_def)

lemma create_html_content_total:
  assumes "''Female_BarChart'' \<in> set cols" "''Male_BarChart'' \<in> set cols" "''NAME'' \<in> set cols"
  shows "create_html_content (cols, r) =
     Inr (if r ''Female_BarChart'' = PyNone \<or> r ''Male_BarChart'' = PyNone
          then no_charts_html (py_str (r ''NAME''))
          else charts_html (py_str (r ''NAME'')) (py_str (r ''Female_BarChart''))
                 (py_str (r ''Male_BarChart'')))"
  using assms by (simp add: create_html_content_def getitem_def row_getitem_def)

lemma row_layer_skip:
  "''geometry'' \<in> set cols \<Longrightarrow> r ''geometry'' = PyNone \<Longrightarrow>
   row_layer rmp variable cmap (cols, r) = Inr None"
  by (simp add: row_layer_def getitem_def row_getitem_def)

lemma row_layer_geom:
  assumes "''geometry'' \<in> set cols" "''Female_BarChart'' \<in> set cols"
    "''Male_BarChart'' \<in> set cols" "''NAME'' \<in> set cols"
    and "r ''geometry'' = Geom shape"
  shows "\<exists>l. row_layer rmp variable cmap (cols, r) = Inr (Some l) \<and> drawn_from cols r l \<and>
     style_fn l = style_function rmp variable cmap \<and>
     create_html_content (cols, r) = Inr (html (content (popup_of l)))"
proof -
  have g: "getitem (cols, r) ''geometry'' = Inr (Geom shape)"
    and n: "getitem (cols, r) ''NAME'' = Inr (r ''NAME'')"
    using assms by (simp_all add: getitem_def row_getitem_def)
  obtain h where h: "create_html_content (cols, r) = Inr h"
    using create_html_content_total[OF assms(2,3,4)] by blast
  show ?thesis
    using assms(5)
    by (simp add: row_layer_def g n h drop_three[OF assms(1,2,3)] drawn_from_def
        row_properties_def to_dict_def)
qed

lemma feature_collection_append:
  "feature_collection (cs @ ds) = feature_collection cs @ feature_collection ds"
  by (induction cs rule: feature_collection.induct) simp_all

lemma add_rows_drawn:
  assumes "''geometry'' \<in> set cols" "''Female_BarChart'' \<in> set cols"
    "''Male_BarChart'' \<in> set cols" "''NAME'' \<in> set cols"
    and "list_all (\<lambda>r. r ''geometry'' = PyNone \<or> is_geom (r ''geometry'')) rs"
  shows "\<exists>ls. snd (add_rows rmp variable cmap (map (\<lambda>r. (cols, r)) rs) g m)
              = Inr (m\<lparr>children := children m @ map GeoJsonChild ls\<rparr>) \<and>
          list_all2 (drawn_from cols) (filter has_geometry rs) ls \<and>
          list_all (\<lambda>l. style_fn l = style_function rmp variable cmap) ls"
  using assms(5)
proof (induction rs arbitrary: m)
  case Nil
  then show ?case by simp
next
  case (Cons r rs)
  then have rest: "list_all (\<lambda>r. r ''geometry'' = PyNone \<or> is_geom (r ''geometry'')) rs"
    and here: "r ''geometry'' = PyNone \<or> is_geom (r ''geometry'')" by simp_all
  show ?case
  proof (cases "r ''geometry'' = PyNone")
    case True
    from Cons.IH[OF rest, of m] obtain ls where
      ls: "snd (add_rows rmp variable cmap (map (\<lambda>r. (cols, r)) rs) g m)
              = Inr (m\<lparr>children := children m @ map GeoJsonChild ls\<rparr>)"
      "list_all2 (drawn_from cols) (filter has_geometry rs) ls"
      "list_all (\<lambda>l. style_fn l = style_function rmp variable cmap) ls" by blast
    have skip: "row_layer rmp variable cmap (cols, r) = Inr None"
      using row_layer_skip[of cols r rmp variable cmap] assms(1) True by simp
    have "snd (add_rows rmp variable cmap (map (\<lambda>r. (cols, r)) (r # rs)) g m)
        = Inr (m\<lparr>children := children m @ map GeoJsonChild ls\<rparr>)"
      using skip ls(1) by simp
    moreover have "list_all2 (drawn_from cols) (filter has_geometry (r # rs)) ls"
      using True ls(2) by (simp add: has_geometry_def)
    ultimately show ?thesis using ls(3) by blast
  next
    case False
    with here obtain shape where shape: "r ''geometry'' = Geom shape"
      by (cases "r ''geometry''") simp_all
    from row_layer_geom[of cols r shape rmp variable cmap] assms(1-4) shape obtain l where
      l: "row_layer rmp variable cmap (cols, r) = Inr (Some l)" "drawn_from cols r l"
         "style_fn l = style_function rmp variable cmap" by blast
    from Cons.IH[OF rest, of "add_to (GeoJsonChild l) m"] obtain ls where
      ls: "snd (add_rows rmp variable cmap (map (\<lambda>r. (cols, r)) rs) g (add_to (GeoJsonChild l) m))
              = Inr ((add_to (GeoJsonChild l) m)\<lparr>children := children (add_to (GeoJsonChild l) m) @ map GeoJsonChild ls\<rparr>)"
      "list_all2 (drawn_from cols) (filter has_geometry rs) ls"
      "list_all (\<lambda>l. style_fn l = style_function rmp variable cmap) ls" by blast
    have "snd (add_rows rmp variable cmap (map (\<lambda>r. (cols, r)) (r # rs)) g m)
        = Inr (m\<lparr>children := children m @ map GeoJsonChild (l # ls)\<rparr>)"
      using l(1) ls(1) by (simp add: add_to_def)
    moreover have "list_all2 (drawn_from cols) (filter has_geometry (r # rs)) (l # ls)"
      using False l(2) ls(2) by (simp add: has_geometry_def)
    moreover have "list_all (\<lambda>l. style_fn l = style_function rmp variable cmap) (l # ls)"
      using l(3) ls(3) by simp
    ultimately show ?thesis by blast
  qed
qed

lemma feature_collection_layers: "feature_collection (map GeoJsonChild ls) = ls"
  by (induction ls) simp_all

lemma map_of_row_properties:
  "map_of (row_properties cols r) k =
     (if k \<in> set cols \<and> k \<notin> set [''geometry'', ''Female_BarChart'', ''Male_BarChart'']
      then Some (r k) else None)"
proof -
  have "map_of (map (\<lambda>k. (k, r k)) ks) k = (if k \<in> set ks then Some (r k) else None)" for ks
    by (induction ks) auto
  then show ?thesis by (simp add: row_properties_def)
qed

lemma series_reduce_total:
  "list_all is_num (present vs) \<Longrightarrow> \<exists>v. series_reduce f vs = Inr v"
  by (simp add: series_reduce_def split: list.splits)

lemma create_colormap_total:
  assumes "variable \<in> set (columns g)"
    and "list_all (\<lambda>r. isna (r variable) \<or> is_num (r variable)) (rows g)"
  shows "\<exists>cmap. create_colormap g variable variable_labels = Inr cmap"
proof -
  have "list_all is_num (present (map (\<lambda>r. r variable) (rows g)))"
    using assms(2) by (auto simp: present_def list_all_iff)
  then obtain lo hi where "series_min (map (\<lambda>r. r variable) (rows g)) = Inr lo"
    "series_max (map (\<lambda>r. r variable) (rows g)) = Inr hi"
    unfolding series_min_def series_max_def using series_reduce_total by blast
  then show ?thesis
    using assms(1) by (simp add: create_colormap_def gdf_getitem_def)
qed

lemma generate_map_drawable:
  assumes "drawable g variable"
  shows "\<exists>cmap ls. create_colormap g variable variable_labels = Inr cmap \<and>
     snd (generate_map rmp g variable variable_labels)
       = Inr \<lparr>location = (37.8, - 96), zoom_start = 4,
              children = ColormapChild cmap # map GeoJsonChild ls @ [LayerControl]\<rparr> \<and>
     list_all2 (drawn_from (columns g)) (filter has_geometry (rows g)) ls \<and>
     list_all (\<lambda>l. style_fn l = style_function rmp variable cmap) ls"
proof -
  from assms have cols: "''geometry'' \<in> set (columns g)" "''Female_BarChart'' \<in> set (columns g)"
    "''Male_BarChart'' \<in> set (columns g)" "''NAME'' \<in> set (columns g)"
    "variable \<in> set (columns g)"
    and shapes: "list_all (\<lambda>r. is_geom (r ''geometry'') \<or>
                     (r ''geometry'' = PyNone \<and>
                      list_ex (\<lambda>k. \<not> isna (r k) \<and> \<not> is_text (r k)) (columns g))) (rows g)"
    and nums: "list_all (\<lambda>r. isna (r variable) \<or> is_num (r variable)) (rows g)"
    by (simp_all add: drawable_def)
  from shapes have geoms:
    "list_all (\<lambda>r. r ''geometry'' = PyNone \<or> is_geom (r ''geometry'')) (rows g)"
    by (auto simp: list_all_iff)
  have "rebuild_row (columns g) r = r" if "r \<in> set (rows g)" for r
  proof -
    from shapes that have "is_geom (r ''geometry'') \<or>
        list_ex (\<lambda>k. \<not> isna (r k) \<and> \<not> is_text (r k)) (columns g)"
      by (auto simp: list_all_iff)
    moreover have "list_ex (\<lambda>k. \<not> isna (r k) \<and> \<not> is_text (r k)) (columns g)"
      if "is_geom (r ''geometry'')"
    proof -
      from that have "\<not> isna (r ''geometry'') \<and> \<not> is_text (r ''geometry'')"
        by (cases "r ''geometry''") simp_all
      with cols(1) show ?thesis unfolding list_ex_iff by blast
    qed
    ultimately have "list_ex (\<lambda>k. \<not> isna (r k) \<and> \<not> is_text (r k)) (columns g)"
      by blast
    then have "\<not> text_row (columns g) r"
      by (auto simp: text_row_def list_ex_iff list_all_iff)
    then show ?thesis by (simp add: rebuild_row_def)
  qed
  then have it: "iterrows g = map (\<lambda>r. (columns g, r)) (rows g)"
    by (simp add: iterrows_def)
  from create_colormap_total[OF cols(5) nums] obtain cmap where
    cmap: "create_colormap g variable variable_labels = Inr cmap" by blast
  define m0 where "m0 = add_to (ColormapChild cmap)
     \<lparr>location = (37.8, - 96), zoom_start = 4, children = []\<rparr>"
  from add_rows_drawn[OF cols(1-4) geoms, of rmp variable cmap g m0] obtain ls where
    ls: "snd (add_rows rmp variable cmap (iterrows g) g m0)
           = Inr (m0\<lparr>children := children m0 @ map GeoJsonChild ls\<rparr>)"
      "list_all2 (drawn_from (columns g)) (filter has_geometry (rows g)) ls"
      "list_all (\<lambda>l. style_fn l = style_function rmp variable cmap) ls"
    unfolding it by blast
  obtain g' where ar: "add_rows rmp variable cmap (iterrows g) g m0
           = (g', Inr (m0\<lparr>children := children m0 @ map GeoJsonChild ls\<rparr>))"
    using ls(1) by (cases "add_rows rmp variable cmap (iterrows g) g m0") simp
  have "snd (generate_map rmp g variable variable_labels)
       = Inr \<lparr>location = (37.8, - 96), zoom_start = 4,
              children = ColormapChild cmap # map GeoJsonChild ls @ [LayerControl]\<rparr>"
    using cmap ar by (simp add: generate_map_def m0_def[symmetric]) (simp add: m0_def add_to_def)
  with cmap ls(2,3) show ?thesis by blast
qed

lemma feature_collection_map:
  "feature_collection (ColormapChild cmap # map GeoJsonChild ls @ [LayerControl]) = ls"
  by (simp add: feature_collection_append feature_collection_layers)


lemma snd_generate_map:
  "snd (generate_map rmp g variable variable_labels) =
     (case create_colormap g variable variable_labels of
        Inl e \<Rightarrow> Inl e
      | Inr cmap \<Rightarrow>
          map_sum id (add_to LayerControl)
            (snd (add_rows rmp variable cmap (iterrows g) g
                    (add_to (ColormapChild cmap)
                       \<lparr>location = (37.8, - 96), zoom_start = 4, children = []\<rparr>))))"
  by (simp add: generate_map_def split: sum.splits prod.splits)

lemmas demo_defs = demo_gdf_def flat_gdf_def demo_columns_def demo_row_def row_of_def

section \<open>The feature collection\<close>



text \<open>
  The last condition cannot be left out. A row without a geometry whose other cells are
  text and missing entries is handed out with \<^verbatim>\<open>nan\<close> for its geometry; the test
  \<^verbatim>\<open>is None\<close> then fails, the row is not skipped, and reading \<^verbatim>\<open>__geo_interface__\<close> raises.
\<close>

lemma text_row_is_not_skipped:
  "\<not> drawable text_gdf ''P12_027N'' \<and>
   snd (generate_map rmp text_gdf ''P12_027N'' variable_labels) = Inl AttributeError"
proof -
  have "\<not> drawable text_gdf ''P12_027N''"
    by (simp add: drawable_def text_gdf_def demo_defs)
  moreover have "\<exists>cmap. create_colormap text_gdf ''P12_027N'' variable_labels = Inr cmap"
    by (simp add: create_colormap_def gdf_getitem_def series_min_def series_max_def
        series_reduce_def present_def text_gdf_def demo_defs)
  then obtain cmap where c: "create_colormap text_gdf ''P12_027N'' variable_labels = Inr cmap"
    by blast
  have "snd (add_rows rmp ''P12_027N'' cmap (iterrows text_gdf) text_gdf m) = Inl AttributeError"
    for m
    by (simp add: iterrows_def rebuild_row_def text_row_def row_layer_def getitem_def
        row_getitem_def create_html_content_def drop_labels_def text_gdf_def demo_defs)
  then have "snd (generate_map rmp text_gdf ''P12_027N'' variable_labels) = Inl AttributeError"
    by (simp add: snd_generate_map c)
  ultimately show ?thesis by blast
qed

lemma count_list_pos_mem: "0 < count_list s sep \<Longrightarrow> sep \<in> set s"
  by (induction s) (auto split: if_splits)

lemma three_segments_exist:
  assumes "2 \<le> count_list s sep"
  shows "\<exists>a b c. s = a @ sep # b @ sep # c \<and> sep \<notin> set a \<and> sep \<notin> set b"
proof -
  from assms have "sep \<in> set s" by (simp add: count_list_pos_mem)
  then obtain a t where s: "s = a @ sep # t" "sep \<notin> set a"
    by (meson split_list_first)
  then have "count_list s sep = Suc (count_list t sep)"
    by (simp add: count_list_0_iff)
  with assms have "sep \<in> set t" by (simp add: count_list_pos_mem)
  then obtain b c where t: "t = b @ sep # c" "sep \<notin> set b"
    by (meson split_list_first)
  with s show ?thesis by blast
qed

section \<open>The domain of the colour scale\<close>



section \<open>Missing values and the domain\<close>



section \<open>The style of a feature\<close>

text \<open>
  Claim C3. \<^verbatim>\<open>style_function\<close> reads the metric value from the feature's properties (a
  missing key reads as \<^verbatim>\<open>None\<close>). When that value is \<^verbatim>\<open>None\<close> or \<^verbatim>\<open>nan\<close> the style is grey
  fill, black border, weight 0.5, opacity 0.7, whatever the colour scale and the ramp are;
  otherwise the fill is the colour the scale gives the value, with the same border,
  weight and opacity.
\<close>

theorem style_function_cases:
  "(isna (case map_of (properties feat) variable of None \<Rightarrow> PyNone | Some v \<Rightarrow> v) \<longrightarrow>
      style_function rmp variable cmap feat
        = \<lparr>fillColor = ''grey'', color = ''black'', weight = 0.5, fillOpacity = 0.7\<rparr>) \<and>
   (\<not> isna (case map_of (properties feat) variable of None \<Rightarrow> PyNone | Some v \<Rightarrow> v) \<longrightarrow>
      style_function rmp variable cmap feat
        = \<lparr>fillColor = rmp cmap (case map_of (properties feat) variable of None \<Rightarrow> PyNone | Some v \<Rightarrow> v),
           color = ''black'', weight = 0.5, fillOpacity = 0.7\<rparr>)"
  by (simp add: style_function_def Let_def)

theorem style_function_cases_witness:
  "isna NaN \<and>
   style_function demo_ramp ''P12_027N'' \<lparr>vmin = Num 10, vmax = Num 30, caption = ''''\<rparr>
      \<lparr>ftype = ''Feature'', properties = [(''NAME'', Str ''B''), (''P12_027N'', NaN)],
       geometry = geo_interface square\<rparr>
     = \<lparr>fillColor = ''grey'', color = ''black'', weight = 0.5, fillOpacity = 0.7\<rparr> \<and>
   style_function demo_ramp ''P12_027N'' \<lparr>vmin = Num 0, vmax = Num 1, caption = ''x''\<rparr>
      \<lparr>ftype = ''Feature'', properties = [(''NAME'', Str ''B'')],
       geometry = geo_interface square\<rparr>
     = \<lparr>fillColor = ''grey'', color = ''black'', weight = 0.5, fillOpacity = 0.7\<rparr> \<and>
   \<not> isna (Num 10) \<and>
   style_function demo_ramp ''P12_027N'' \<lparr>vmin = Num 10, vmax = Num 30, caption = ''''\<rparr>
      \<lparr>ftype = ''Feature'', properties = [(''NAME'', Str ''A''), (''P12_027N'', Num 10)],
       geometry = geo_interface square\<rparr>
     = \<lparr>fillColor = ''#10'', color = ''black'', weight = 0.5, fillOpacity = 0.7\<rparr>"
proof -
  have 1: "style_function demo_ramp ''P12_027N'' \<lparr>vmin = Num 10, vmax = Num 30, caption = ''''\<rparr>
      \<lparr>ftype = ''Feature'', properties = [(''NAME'', Str ''B''), (''P12_027N'', NaN)],
       geometry = geo_interface square\<rparr>
     = \<lparr>fillColor = ''grey'', color = ''black'', weight = 0.5, fillOpacity = 0.7\<rparr>"
    using style_function_cases[of
        "\<lparr>ftype = ''Feature'', properties = [(''NAME'', Str ''B''), (''P12_027N'', NaN)],
          geometry = geo_interface square\<rparr>" "''P12_027N''" demo_ramp
        "\<lparr>vmin = Num 10, vmax = Num 30, caption = ''''\<rparr>"]
    by simp
  have 2: "style_function demo_ramp ''P12_027N'' \<lparr>vmin = Num 0, vmax = Num 1, caption = ''x''\<rparr>
      \<lparr>ftype = ''Feature'', properties = [(''NAME'', Str ''B'')],
       geometry = geo_interface square\<rparr>
     = \<lparr>fillColor = ''grey'', color = ''black'', weight = 0.5, fillOpacity = 0.7\<rparr>"
    using style_function_cases[of
        "\<lparr>ftype = ''Feature'', properties = [(''NAME'', Str ''B'')],
          geometry = geo_interface square\<rparr>" "''P12_027N''" demo_ramp
        "\<lparr>vmin = Num 0, vmax = Num 1, caption = ''x''\<rparr>"]
    by simp
  have 3: "style_function demo_ramp ''P12_027N'' \<lparr>vmin = Num 10, vmax = Num 30, caption = ''''\<rparr>
      \<lparr>ftype = ''Feature'', properties = [(''NAME'', Str ''A''), (''P12_027N'', Num 10)],
       geometry = geo_interface square\<rparr>
     = \<lparr>fillColor = ''#10'', color = ''black'', weight = 0.5, fillOpacity = 0.7\<rparr>"
    using style_function_cases[of
        "\<lparr>ftype = ''Feature'', properties = [(''NAME'', Str ''A''), (''P12_027N'', Num 10)],
          geometry = geo_interface square\<rparr>" "''P12_027N''" demo_ramp
        "\<lparr>vmin = Num 10, vmax = Num 30, caption = ''''\<rparr>"]
    by (simp add: demo_ramp_def str_of_int_def digit_char_def)
  from 1 2 3 show ?thesis by simp
qed

text \<open>
  For a layer drawn from a row, and a metric that is a column other than the three
  dropped ones, the value the closure reads is the row's own metric cell.
\<close>

lemma style_of_drawn_layer:
  assumes "drawn_from cols r l" and "variable \<in> set cols"
    and "variable \<notin> set [''geometry'', ''Female_BarChart'', ''Male_BarChart'']"
  shows "style_function rmp variable cmap (data l) =
     \<lparr>fillColor = (if isna (r variable) then ''grey'' else rmp cmap (r variable)),
      color = ''black'', weight = 0.5, fillOpacity = 0.7\<rparr>"
proof -
  from assms(1) have "properties (data l) = row_properties cols r"
    by (simp add: drawn_from_def split: cell.splits)
  then have "map_of (properties (data l)) variable = Some (r variable)"
    using assms(2,3) map_of_row_properties[of cols r variable] by simp
  then show ?thesis by (simp add: style_function_def)
qed

section \<open>A metric that is not a column\<close>

text \<open>
  Claim C5. When the requested metric is not a column of the table, \<^verbatim>\<open>main\<close> shows the
  error "Preset variable '...' not found in the data." and stops: nothing follows the
  stop, so no colour scale is built and no map is shown. A direct call of
  \<^verbatim>\<open>generate_map\<close> fails as well: the column lookup that opens \<^verbatim>\<open>create_colormap\<close> raises
  \<^verbatim>\<open>KeyError\<close> with the metric code, before the scale is made, and no map is returned.
\<close>

theorem unknown_metric_rejected:
  assumes "variable \<notin> set (columns g)"
  shows "main_with rmp variable g =
           set_custom_style @
           [StError (''Preset variable '' @ [CHR 0x27] @ variable @ [CHR 0x27] @
                     '' not found in the data.''),
            StStop] \<and>
         create_colormap g variable variable_labels = Inl (KeyError variable) \<and>
         generate_map rmp g variable variable_labels = (g, Inl (KeyError variable))"
  using assms by (simp add: main_with_def create_colormap_def gdf_getitem_def generate_map_def)

theorem unknown_metric_rejected_witness:
  "''P12_999N'' \<notin> set (columns demo_gdf) \<and>
   main_with demo_ramp ''P12_999N'' demo_gdf =
     [Markdown custom_style,
      StError (''Preset variable '' @ [CHR 0x27] @ ''P12_999N'' @ [CHR 0x27] @
               '' not found in the data.''),
      StStop] \<and>
   generate_map demo_ramp demo_gdf ''P12_999N'' Map.empty = (demo_gdf, Inl (KeyError ''P12_999N''))"
proof -
  have a: "''P12_999N'' \<notin> set (columns demo_gdf)" by (simp add: demo_defs)
  from unknown_metric_rejected[OF a, of demo_ramp Map.empty] a show ?thesis
    by (simp add: set_custom_style_def)
qed

section \<open>The label of a metric column\<close>

text \<open>
  Claim C7. For a column whose name starts with \<^verbatim>\<open>P12_\<close>: if the name is
  \<open>a_b_c\<close> with no underscore in \<open>a\<close> and \<open>b\<close> (so \<open>c\<close> is everything after the second
  underscore), its label is \<open>c\<close> stripped, that is \<open>c\<close> without a leading and a trailing
  run of whitespace; if the name has fewer than two underscores (fewer than three
  segments), its label is the name itself. A name with two underscores or more always
  has such a decomposition.
\<close>

theorem metric_label:
  assumes "col \<in> set (columns g)" and "startswith col ''P12_''"
  shows "(\<forall>a b c. col = a @ ''_'' @ b @ ''_'' @ c \<and> CHR ''_'' \<notin> set a \<and> CHR ''_'' \<notin> set b \<longrightarrow>
            extract_variable_labels g col = Some (strip c) \<and>
            (\<exists>pre post. c = pre @ strip c @ post \<and> list_all is_space pre \<and> list_all is_space post) \<and>
            (strip c = [] \<or> \<not> is_space (hd (strip c)) \<and> \<not> is_space (last (strip c)))) \<and>
         (count_list col (CHR ''_'') < 2 \<longrightarrow> extract_variable_labels g col = Some col) \<and>
         (2 \<le> count_list col (CHR ''_'') \<longrightarrow>
            (\<exists>a b c. col = a @ ''_'' @ b @ ''_'' @ c \<and> CHR ''_'' \<notin> set a \<and> CHR ''_'' \<notin> set b))"
proof -
  have look: "extract_variable_labels g col =
      Some (if length (split (CHR ''_'') 2 col) = 3 then strip (split (CHR ''_'') 2 col ! 2) else col)"
    using assms by (simp add: extract_variable_labels_def extract_loop_lookup)
  have three: "extract_variable_labels g col = Some (strip c)"
    if "col = a @ ''_'' @ b @ ''_'' @ c" "CHR ''_'' \<notin> set a" "CHR ''_'' \<notin> set b" for a b c
    using that look split_three[of "CHR ''_''" a b c] by simp
  have few: "extract_variable_labels g col = Some col" if "count_list col (CHR ''_'') < 2"
    using that look split_length[of "CHR ''_''" 2 col] by simp
  have ex: "\<exists>a b c. col = a @ ''_'' @ b @ ''_'' @ c \<and> CHR ''_'' \<notin> set a \<and> CHR ''_'' \<notin> set b"
    if "2 \<le> count_list col (CHR ''_'')"
    using three_segments_exist[OF that] by simp
  show ?thesis
    using three few ex strip_decomp strip_ends by blast
qed

theorem metric_label_witness:
  "''P12_001N_ Total Population '' \<in> set (columns demo_gdf) \<and>
   startswith ''P12_001N_ Total Population '' ''P12_'' \<and>
   extract_variable_labels demo_gdf ''P12_001N_ Total Population '' = Some ''Total Population'' \<and>
   ''P12_027N'' \<in> set (columns demo_gdf) \<and>
   startswith ''P12_027N'' ''P12_'' \<and>
   count_list ''P12_027N'' (CHR ''_'') < 2 \<and>
   extract_variable_labels demo_gdf ''P12_027N'' = Some ''P12_027N''"
proof -
  have a1: "''P12_001N_ Total Population '' \<in> set (columns demo_gdf)" by (simp add: demo_defs)
  have a2: "startswith ''P12_001N_ Total Population '' ''P12_''" by (simp add: startswith_def)
  have b1: "''P12_027N'' \<in> set (columns demo_gdf)" by (simp add: demo_defs)
  have b2: "startswith ''P12_027N'' ''P12_''" by (simp add: startswith_def)
  have b3: "count_list ''P12_027N'' (CHR ''_'') < 2" by simp
  have s: "strip '' Total Population '' = ''Total Population''"
    by (simp add: strip_def is_space_def)
  have "''P12_001N_ Total Population '' = ''P12'' @ ''_'' @ ''001N'' @ ''_'' @ '' Total Population '' \<and>
        CHR ''_'' \<notin> set ''P12'' \<and> CHR ''_'' \<notin> set ''001N''" by simp
  with metric_label[OF a1 a2] have
    "extract_variable_labels demo_gdf ''P12_001N_ Total Population '' = Some (strip '' Total Population '')"
    by blast
  moreover have "extract_variable_labels demo_gdf ''P12_027N'' = Some ''P12_027N''"
    using metric_label[OF b1 b2] b3 by blast
  ultimately show ?thesis using a1 a2 b1 b2 b3 s by simp
qed

section \<open>The map as a function of the region data\<close>

lemma same_cellsD: "same_cells cols r1 r2 \<Longrightarrow> k \<in> set cols \<Longrightarrow> r1 k = r2 k"
  by (simp add: same_cells_def list_all_iff)

lemma text_row_same: "same_cells cols r1 r2 \<Longrightarrow> text_row cols r1 = text_row cols r2"
  by (simp add: text_row_def same_cells_def list_all_iff list_ex_iff)

lemma rebuild_row_same:
  "same_cells cols r1 r2 \<Longrightarrow> same_cells cols (rebuild_row cols r1) (rebuild_row cols r2)"
  using text_row_same[of cols r1 r2]
  by (simp add: rebuild_row_def same_cells_def list_all_iff)

lemma getitem_same:
  "same_cells cols s1 s2 \<Longrightarrow> getitem (cols, s1) k = getitem (cols, s2) k"
  by (simp add: getitem_def row_getitem_def same_cellsD)

lemma create_html_content_same:
  "same_cells cols s1 s2 \<Longrightarrow> create_html_content (cols, s1) = create_html_content (cols, s2)"
  by (simp add: create_html_content_def getitem_same[of cols s1 s2] cong: sum.case_cong)

lemma to_dict_same:
  "same_cells cols s1 s2 \<Longrightarrow> to_dict (filter P cols, s1) = to_dict (filter P cols, s2)"
  by (simp add: to_dict_def same_cellsD)

lemma dropped_dict_same:
  assumes "same_cells cols s1 s2"
  shows "map_sum id to_dict (drop_labels (cols, s1) labels)
       = map_sum id to_dict (drop_labels (cols, s2) labels)"
  using to_dict_same[OF assms, of "\<lambda>k. k \<notin> set labels"]
  by (cases "filter (\<lambda>l. l \<notin> set cols) labels") (simp_all add: drop_labels_def)

lemma row_layer_alt:
  "row_layer rmp variable cmap row =
     (case getitem row ''geometry'' of
        Inl e \<Rightarrow> Inl e
      | Inr geom \<Rightarrow>
          if geom = PyNone then Inr None
          else
            (case create_html_content row of
               Inl e \<Rightarrow> Inl e
             | Inr html_content \<Rightarrow>
                 (case map_sum id to_dict
                         (drop_labels row [''geometry'', ''Female_BarChart'', ''Male_BarChart'']) of
                    Inl e \<Rightarrow> Inl e
                  | Inr props \<Rightarrow>
                      (case geom of
                         Geom shape \<Rightarrow>
                           (case getitem row ''NAME'' of
                              Inl e \<Rightarrow> Inl e
                            | Inr name \<Rightarrow>
                                Inr (Some
                                  \<lparr>data = \<lparr>ftype = ''Feature'', properties = props,
                                            geometry = geo_interface shape\<rparr>,
                                   style_fn = style_function rmp variable cmap,
                                   highlight_fn = highlight_function,
                                   tooltip = name,
                                   popup_of = \<lparr>content = \<lparr>html = html_content, width = 320,
                                                          height = 400\<rparr>,
                                               max_width = 320\<rparr>\<rparr>))
                       | _ \<Rightarrow> Inl AttributeError))))"
  by (simp add: row_layer_def split: sum.splits cell.splits)

lemma row_layer_same:
  assumes "same_cells cols s1 s2"
  shows "row_layer rmp variable cmap (cols, s1) = row_layer rmp variable cmap (cols, s2)"
  by (simp only: row_layer_alt getitem_same[OF assms] create_html_content_same[OF assms]
      dropped_dict_same[OF assms])

lemma add_rows_same:
  assumes "list_all2 (same_cells cols) rs1 rs2"
  shows "snd (add_rows rmp variable cmap (map (\<lambda>r. (cols, rebuild_row cols r)) rs1) g1 m)
       = snd (add_rows rmp variable cmap (map (\<lambda>r. (cols, rebuild_row cols r)) rs2) g2 m)"
  using assms
proof (induction arbitrary: m rule: list_all2_induct)
  case Nil
  then show ?case by simp
next
  case (Cons r1 rs1 r2 rs2)
  have "row_layer rmp variable cmap (cols, rebuild_row cols r1)
      = row_layer rmp variable cmap (cols, rebuild_row cols r2)"
    using Cons.hyps(1) by (intro row_layer_same rebuild_row_same)
  then show ?case
    using Cons.IH by (simp split: sum.splits option.splits)
qed

lemma column_same:
  assumes "list_all2 (same_cells cols) rs1 rs2" and "k \<in> set cols"
  shows "map (\<lambda>r. r k) rs1 = map (\<lambda>r. r k) rs2"
  using assms by (induction rule: list_all2_induct) (simp_all add: same_cellsD)

lemma create_colormap_same:
  assumes "same_region_data g1 g2"
  shows "create_colormap g1 variable variable_labels = create_colormap g2 variable variable_labels"
proof -
  from assms have c: "columns g2 = columns g1"
    and r: "list_all2 (same_cells (columns g1)) (rows g1) (rows g2)"
    by (auto simp: same_region_data_def)
  have "gdf_getitem g1 variable = gdf_getitem g2 variable"
    using column_same[OF r, of variable] by (simp add: gdf_getitem_def c)
  then show ?thesis by (simp add: create_colormap_def)
qed

lemma generate_map_same:
  assumes "same_region_data g1 g2"
  shows "snd (generate_map rmp g1 variable variable_labels)
       = snd (generate_map rmp g2 variable variable_labels)"
proof -
  from assms have c: "columns g2 = columns g1"
    and r: "list_all2 (same_cells (columns g1)) (rows g1) (rows g2)"
    by (auto simp: same_region_data_def)
  note cm = create_colormap_same[OF assms, of variable variable_labels]
  show ?thesis
  proof (cases "create_colormap g1 variable variable_labels")
    case (Inl e)
    with cm have c2: "create_colormap g2 variable variable_labels = Inl e" by simp
    show ?thesis by (simp add: snd_generate_map Inl c2)
  next
    case (Inr cmap)
    with cm have c2: "create_colormap g2 variable variable_labels = Inr cmap" by simp
    show ?thesis
      using add_rows_same[OF r, of rmp variable cmap g1
          "add_to (ColormapChild cmap) \<lparr>location = (37.8, - 96), zoom_start = 4, children = []\<rparr>" g2]
      by (simp add: snd_generate_map Inr c2 iterrows_def c)
  qed
qed

lemma legend_domains_layers: "legend_domains (map GeoJsonChild ls @ cs) = legend_domains cs"
  by (induction ls) simp_all

lemma drawn_styles:
  assumes "list_all2 (drawn_from cols) rs ls"
    and "list_all (\<lambda>l. style_fn l = style_function rmp variable cmap) ls"
    and "variable \<in> set cols"
    and "variable \<notin> set [''geometry'', ''Female_BarChart'', ''Male_BarChart'']"
  shows "map (\<lambda>l. style_fn l (data l)) ls = map (row_style rmp variable cmap) rs"
  using assms(1,2)
proof (induction rule: list_all2_induct)
  case Nil
  then show ?case by simp
next
  case (Cons r rs l ls)
  then show ?case
    using style_of_drawn_layer[OF Cons.hyps(1) assms(3,4), of rmp cmap]
    by (simp add: row_style_def)
qed

text \<open>
  Claim C8. Two calls of \<^verbatim>\<open>generate_map\<close> with the same metric on tables that hold the same
  region data (the same columns, the same cells at those columns, row by row) return the
  same result, a map or an exception; the tables themselves may differ in what their rows
  answer where no column is. On a drawable table, with a metric that is not one of the
  three dropped columns, that result is given outright: each row with a geometry is
  drawn grey when its metric value is missing and with the colour the scale gives the
  value otherwise, and the one legend has the domain of the scale built from the metric
  column. So the styles and the legend domain of the two maps are the same. A second call
  on the table the first call left is a case of this.
\<close>

theorem generate_map_deterministic:
  assumes "same_region_data g1 g2"
  shows "snd (generate_map rmp g1 variable variable_labels)
           = snd (generate_map rmp g2 variable variable_labels) \<and>
         (drawable g1 variable \<and>
          variable \<notin> set [''geometry'', ''Female_BarChart'', ''Male_BarChart''] \<longrightarrow>
            (\<exists>cmap m1 m2.
               create_colormap g1 variable variable_labels = Inr cmap \<and>
               snd (generate_map rmp g1 variable variable_labels) = Inr m1 \<and>
               snd (generate_map rmp g2 variable variable_labels) = Inr m2 \<and>
               feature_styles m1
                 = map (row_style rmp variable cmap) (filter has_geometry (rows g1)) \<and>
               feature_styles m2 = feature_styles m1 \<and>
               legend_domains (children m1) = [(vmin cmap, vmax cmap)] \<and>
               legend_domains (children m2) = legend_domains (children m1)))"
proof (intro conjI impI)
  show same: "snd (generate_map rmp g1 variable variable_labels)
           = snd (generate_map rmp g2 variable variable_labels)"
    by (rule generate_map_same[OF assms])
  assume a: "drawable g1 variable \<and>
          variable \<notin> set [''geometry'', ''Female_BarChart'', ''Male_BarChart'']"
  then have d: "drawable g1 variable"
    and nd: "variable \<notin> set [''geometry'', ''Female_BarChart'', ''Male_BarChart'']"
    by simp_all
  from d have v: "variable \<in> set (columns g1)" by (simp add: drawable_def)
  from generate_map_drawable[OF d, of variable_labels rmp] obtain cmap ls where
    cmap: "create_colormap g1 variable variable_labels = Inr cmap"
    and m: "snd (generate_map rmp g1 variable variable_labels)
       = Inr \<lparr>location = (37.8, - 96), zoom_start = 4,
              children = ColormapChild cmap # map GeoJsonChild ls @ [LayerControl]\<rparr>"
    and ls: "list_all2 (drawn_from (columns g1)) (filter has_geometry (rows g1)) ls"
    and st: "list_all (\<lambda>l. style_fn l = style_function rmp variable cmap) ls"
    by blast
  define m1 where "m1 = \<lparr>location = (37.8, - 96), zoom_start = 4,
              children = ColormapChild cmap # map GeoJsonChild ls @ [LayerControl]\<rparr>"
  have r1: "snd (generate_map rmp g1 variable variable_labels) = Inr m1"
    using m by (simp add: m1_def)
  with same have r2: "snd (generate_map rmp g2 variable variable_labels) = Inr m1" by simp
  have "feature_styles m1 = map (\<lambda>l. style_fn l (data l)) ls"
    by (simp add: feature_styles_def m1_def feature_collection_append feature_collection_layers)
  then have fs: "feature_styles m1
      = map (row_style rmp variable cmap) (filter has_geometry (rows g1))"
    using drawn_styles[OF ls st v nd] by simp
  have lg: "legend_domains (children m1) = [(vmin cmap, vmax cmap)]"
    by (simp add: m1_def legend_domains_layers)
  from cmap r1 r2 fs lg
  show "\<exists>cmap m1 m2.
               create_colormap g1 variable variable_labels = Inr cmap \<and>
               snd (generate_map rmp g1 variable variable_labels) = Inr m1 \<and>
               snd (generate_map rmp g2 variable variable_labels) = Inr m2 \<and>
               feature_styles m1
                 = map (row_style rmp variable cmap) (filter has_geometry (rows g1)) \<and>
               feature_styles m2 = feature_styles m1 \<and>
               legend_domains (children m1) = [(vmin cmap, vmax cmap)] \<and>
               legend_domains (children m2) = legend_domains (children m1)"
    by blast
qed

theorem generate_map_deterministic_witness:
  "same_region_data demo_gdf demo_gdf_alt \<and>
   hd (rows demo_gdf) ''elsewhere'' \<noteq> hd (rows demo_gdf_alt) ''elsewhere'' \<and>
   drawable demo_gdf ''P12_027N'' \<and>
   ''P12_027N'' \<notin> set [''geometry'', ''Female_BarChart'', ''Male_BarChart''] \<and>
   (\<exists>m1 m2.
      snd (generate_map demo_ramp demo_gdf ''P12_027N'' Map.empty) = Inr m1 \<and>
      snd (generate_map demo_ramp demo_gdf_alt ''P12_027N'' Map.empty) = Inr m2 \<and>
      feature_styles m1 =
        [\<lparr>fillColor = ''#10'', color = ''black'', weight = 0.5, fillOpacity = 0.7\<rparr>,
         \<lparr>fillColor = ''grey'', color = ''black'', weight = 0.5, fillOpacity = 0.7\<rparr>,
         \<lparr>fillColor = ''#30'', color = ''black'', weight = 0.5, fillOpacity = 0.7\<rparr>] \<and>
      feature_styles m2 = feature_styles m1 \<and>
      legend_domains (children m1) = [(Num 10, Num 30)] \<and>
      legend_domains (children m2) = [(Num 10, Num 30)]) \<and>
   same_region_data demo_gdf (fst (generate_map demo_ramp demo_gdf ''P12_027N'' Map.empty)) \<and>
   snd (generate_map demo_ramp (fst (generate_map demo_ramp demo_gdf ''P12_027N'' Map.empty))
          ''P12_027N'' Map.empty)
     = snd (generate_map demo_ramp demo_gdf ''P12_027N'' Map.empty)"
proof -
  have s: "same_region_data demo_gdf demo_gdf_alt"
    by (simp add: same_region_data_def same_cells_def demo_gdf_alt_def demo_defs)
  have n: "hd (rows demo_gdf) ''elsewhere'' \<noteq> hd (rows demo_gdf_alt) ''elsewhere''"
    by (simp add: demo_gdf_alt_def demo_defs)
  have d: "drawable demo_gdf ''P12_027N''"
    by (simp add: drawable_def demo_defs)
  have v: "''P12_027N'' \<notin> set [''geometry'', ''Female_BarChart'', ''Male_BarChart'']"
    by simp
  have c: "create_colormap demo_gdf ''P12_027N'' Map.empty
        = Inr \<lparr>vmin = Num 10, vmax = Num 30, caption = ''Demographic Metric: P12_027N''\<rparr>"
    by (simp add: create_colormap_def gdf_getitem_def series_min_def series_max_def
        series_reduce_def present_def dict_get_def demo_defs)
  have f: "map (row_style demo_ramp ''P12_027N''
                  \<lparr>vmin = Num 10, vmax = Num 30, caption = ''Demographic Metric: P12_027N''\<rparr>)
             (filter has_geometry (rows demo_gdf)) =
        [\<lparr>fillColor = ''#10'', color = ''black'', weight = 0.5, fillOpacity = 0.7\<rparr>,
         \<lparr>fillColor = ''grey'', color = ''black'', weight = 0.5, fillOpacity = 0.7\<rparr>,
         \<lparr>fillColor = ''#30'', color = ''black'', weight = 0.5, fillOpacity = 0.7\<rparr>]"
    by (simp add: row_style_def has_geometry_def demo_ramp_def str_of_int_def digit_char_def
        demo_defs)
  have 1: "\<exists>m1 m2.
      snd (generate_map demo_ramp demo_gdf ''P12_027N'' Map.empty) = Inr m1 \<and>
      snd (generate_map demo_ramp demo_gdf_alt ''P12_027N'' Map.empty) = Inr m2 \<and>
      feature_styles m1 =
        [\<lparr>fillColor = ''#10'', color = ''black'', weight = 0.5, fillOpacity = 0.7\<rparr>,
         \<lparr>fillColor = ''grey'', color = ''black'', weight = 0.5, fillOpacity = 0.7\<rparr>,
         \<lparr>fillColor = ''#30'', color = ''black'', weight = 0.5, fillOpacity = 0.7\<rparr>] \<and>
      feature_styles m2 = feature_styles m1 \<and>
      legend_domains (children m1) = [(Num 10, Num 30)] \<and>
      legend_domains (children m2) = [(Num 10, Num 30)]"
  proof -
    from generate_map_deterministic[OF s, of demo_ramp "''P12_027N''" Map.empty] d v
    obtain cmap m1 m2 where
      k: "create_colormap demo_gdf ''P12_027N'' Map.empty = Inr cmap"
      and r1: "snd (generate_map demo_ramp demo_gdf ''P12_027N'' Map.empty) = Inr m1"
      and r2: "snd (generate_map demo_ramp demo_gdf_alt ''P12_027N'' Map.empty) = Inr m2"
      and fs: "feature_styles m1
          = map (row_style demo_ramp ''P12_027N'' cmap) (filter has_geometry (rows demo_gdf))"
      and f2: "feature_styles m2 = feature_styles m1"
      and l1: "legend_domains (children m1) = [(vmin cmap, vmax cmap)]"
      and l2: "legend_domains (children m2) = legend_domains (children m1)"
      by blast
    from k c have cm: "cmap = \<lparr>vmin = Num 10, vmax = Num 30,
        caption = ''Demographic Metric: P12_027N''\<rparr>" by simp
    from fs f have fs': "feature_styles m1 =
        [\<lparr>fillColor = ''#10'', color = ''black'', weight = 0.5, fillOpacity = 0.7\<rparr>,
         \<lparr>fillColor = ''grey'', color = ''black'', weight = 0.5, fillOpacity = 0.7\<rparr>,
         \<lparr>fillColor = ''#30'', color = ''black'', weight = 0.5, fillOpacity = 0.7\<rparr>]"
      unfolding cm by (rule trans)
    from l1 have l1': "legend_domains (children m1) = [(Num 10, Num 30)]"
      by (simp add: cm)
    with l2 have l2': "legend_domains (children m2) = [(Num 10, Num 30)]" by simp
    from r1 r2 fs' f2 l1' l2' show ?thesis by blast
  qed
  have s2: "same_region_data demo_gdf (fst (generate_map demo_ramp demo_gdf ''P12_027N'' Map.empty))"
    by (simp add: generate_map_frame same_region_data_def same_cells_def list_all2_same
        list_all_iff)
  from generate_map_deterministic[OF s2, of demo_ramp "''P12_027N''" Map.empty]
  have 2: "snd (generate_map demo_ramp (fst (generate_map demo_ramp demo_gdf ''P12_027N'' Map.empty))
          ''P12_027N'' Map.empty)
     = snd (generate_map demo_ramp demo_gdf ''P12_027N'' Map.empty)"
    by simp
  from s n d v 1 s2 2 show ?thesis by blast
qed

section \<open>The table after a call\<close>

text \<open>
  Claim C9. \<^verbatim>\<open>generate_map\<close> leaves the table it was given as it was, whether it returns
  a map or raises: every row has the cells it had. What the map holds is built from
  values read from the rows (\<^verbatim>\<open>drop\<close> and \<^verbatim>\<open>to_dict\<close> return new objects).
\<close>

theorem generate_map_leaves_table:
  "fst (generate_map rmp g variable variable_labels) = g"
  by (rule generate_map_frame)

lemma sublist_between: "t = ps @ xs @ ss \<Longrightarrow> sublist xs t"
  by (auto simp: sublist_def)

lemma no_charts_heading:
  "sublist (''<h4>'' @ n @ ''</h4>'') (no_charts_html n)"
  by (rule sublist_between[where
        ps = \<open>''\<newline>            <div style="width: 300px;">\<newline>                ''\<close>
        and ss = "''\<newline>                <p>No data available for bar charts.</p>\<newline>            </div>\<newline>            ''"])
     (simp add: no_charts_html_def)

lemma no_charts_message:
  "sublist ''<p>No data available for bar charts.</p>'' (no_charts_html n)"
  by (rule sublist_between[where
        ps = \<open>''\<newline>            <div style="width: 300px;">\<newline>                <h4>'' @ n @ ''</h4>\<newline>                ''\<close>
        and ss = "''\<newline>            </div>\<newline>            ''"])
     (simp add: no_charts_html_def)

lemma charts_heading:
  "sublist (''<h4>'' @ n @ ''</h4>'') (charts_html n f m)"
  unfolding sublist_def
  by (rule exI[where x = \<open>''\<newline>            <div style="width: 300px;">\<newline>                ''\<close>])
     (simp add: charts_html_def)

lemma charts_female:
  \<open>sublist (''<h5>Female Age Data</h5>\<newline>                        <img src="data:image/png;base64,'' @ f @
            ''" style="width: 280px; height: 150px;">'') (charts_html n f m)\<close>
  unfolding sublist_def
  by (rule exI[where x = \<open>''\<newline>            <div style="width: 300px;">\<newline>                <h4>'' @ n @
        ''</h4>\<newline>                <div style="display: flex; flex-direction: column; gap: 10px;">\<newline>                    <div>\<newline>                        ''\<close>])
     (simp add: charts_html_def)

lemma charts_male:
  \<open>sublist (''<h5>Male Age Data</h5>\<newline>                        <img src="data:image/png;base64,'' @ m @
            ''" style="width: 280px; height: 150px;">'') (charts_html n f m)\<close>
  unfolding sublist_def
  by (rule exI[where x = \<open>''\<newline>            <div style="width: 300px;">\<newline>                <h4>'' @ n @
        ''</h4>\<newline>                <div style="display: flex; flex-direction: column; gap: 10px;">\<newline>                    <div>\<newline>                        <h5>Female Age Data</h5>\<newline>                        <img src="data:image/png;base64,'' @ f @
            ''" style="width: 280px; height: 150px;">\<newline>                    </div>\<newline>                    <div>\<newline>                        ''\<close>])
     (simp add: charts_html_def)

lemma panels_differ: "no_charts_html n \<noteq> charts_html n f m"
  by (simp add: no_charts_html_def charts_html_def)

lemma charts_src_female:
  \<open>sublist (''<img src="data:image/png;base64,'' @ f @ ''"'') (charts_html n f m)\<close>
  unfolding sublist_def
  by (rule exI[where x = \<open>''\<newline>            <div style="width: 300px;">\<newline>                <h4>'' @ n @
        ''</h4>\<newline>                <div style="display: flex; flex-direction: column; gap: 10px;">\<newline>                    <div>\<newline>                        <h5>Female Age Data</h5>\<newline>                        ''\<close>])
     (simp add: charts_html_def)

lemma charts_src_male:
  \<open>sublist (''<img src="data:image/png;base64,'' @ m @ ''"'') (charts_html n f m)\<close>
  unfolding sublist_def
  by (rule exI[where x = \<open>''\<newline>            <div style="width: 300px;">\<newline>                <h4>'' @ n @
        ''</h4>\<newline>                <div style="display: flex; flex-direction: column; gap: 10px;">\<newline>                    <div>\<newline>                        <h5>Female Age Data</h5>\<newline>                        <img src="data:image/png;base64,'' @ f @
            ''" style="width: 280px; height: 150px;">\<newline>                    </div>\<newline>                    <div>\<newline>                        <h5>Male Age Data</h5>\<newline>                        ''\<close>])
     (simp add: charts_html_def)

section \<open>The detail panel of a row\<close>

text \<open>
  Claim C4. For a row that has the three columns the panel reads,
  \<^verbatim>\<open>create_html_content\<close> returns a panel and does not fail. The panel always holds the
  name as a heading. When either chart is \<^verbatim>\<open>None\<close> it holds the paragraph "No data
  available for bar charts."; when both are there it holds the two blocks headed "Female
  Age Data" and "Male Age Data", each followed by its image at 280 by 150 pixels.
\<close>

theorem create_html_content_panel:
  assumes "''Female_BarChart'' \<in> set cols" and "''Male_BarChart'' \<in> set cols"
    and "''NAME'' \<in> set cols"
  shows \<open>\<exists>panel. create_html_content (cols, r) = Inr panel \<and>
     sublist (''<h4>'' @ py_str (r ''NAME'') @ ''</h4>'') panel \<and>
     (r ''Female_BarChart'' = PyNone \<or> r ''Male_BarChart'' = PyNone \<longrightarrow>
        sublist ''<p>No data available for bar charts.</p>'' panel) \<and>
     (r ''Female_BarChart'' \<noteq> PyNone \<and> r ''Male_BarChart'' \<noteq> PyNone \<longrightarrow>
        sublist (''<h5>Female Age Data</h5>\<newline>                        <img src="data:image/png;base64,'' @
                 py_str (r ''Female_BarChart'') @ ''" style="width: 280px; height: 150px;">'') panel \<and>
        sublist (''<h5>Male Age Data</h5>\<newline>                        <img src="data:image/png;base64,'' @
                 py_str (r ''Male_BarChart'') @ ''" style="width: 280px; height: 150px;">'') panel)\<close>
proof (cases "r ''Female_BarChart'' = PyNone \<or> r ''Male_BarChart'' = PyNone")
  case True
  then have "create_html_content (cols, r) = Inr (no_charts_html (py_str (r ''NAME'')))"
    using create_html_content_total[OF assms, of r] by auto
  with True show ?thesis
    using no_charts_heading no_charts_message by auto
next
  case False
  then have "create_html_content (cols, r) =
      Inr (charts_html (py_str (r ''NAME'')) (py_str (r ''Female_BarChart''))
             (py_str (r ''Male_BarChart'')))"
    using create_html_content_total[OF assms, of r] by auto
  with False show ?thesis
    using charts_heading charts_female charts_male by auto
qed

theorem create_html_content_panel_witness:
  \<open>''Female_BarChart'' \<in> set demo_columns \<and> ''Male_BarChart'' \<in> set demo_columns \<and>
   ''NAME'' \<in> set demo_columns \<and>
   (\<exists>panel. create_html_content (demo_columns, demo_row ''B'' (Geom square) NaN PyNone) = Inr panel \<and>
      sublist ''<h4>B</h4>'' panel \<and> sublist ''<p>No data available for bar charts.</p>'' panel) \<and>
   (\<exists>panel. create_html_content
               (demo_columns, row_of [(''NAME'', Str ''E''), (''Female_BarChart'', Str ''Rg==''),
                                      (''Male_BarChart'', PyNone)]) = Inr panel \<and>
      sublist ''<h4>E</h4>'' panel \<and> sublist ''<p>No data available for bar charts.</p>'' panel) \<and>
   (\<exists>panel. create_html_content (demo_columns, demo_row ''A'' (Geom square) (Num 10) (Str ''Rg=='')) = Inr panel \<and>
      sublist ''<h4>A</h4>'' panel \<and>
      sublist ''<h5>Female Age Data</h5>\<newline>                        <img src="data:image/png;base64,Rg==" style="width: 280px; height: 150px;">'' panel \<and>
      sublist ''<h5>Male Age Data</h5>\<newline>                        <img src="data:image/png;base64,TQ==" style="width: 280px; height: 150px;">'' panel)\<close>
proof -
  have c: "''Female_BarChart'' \<in> set demo_columns" "''Male_BarChart'' \<in> set demo_columns"
    "''NAME'' \<in> set demo_columns" by (simp_all add: demo_columns_def)
  have 1: \<open>\<exists>panel. create_html_content (demo_columns, demo_row ''B'' (Geom square) NaN PyNone) = Inr panel \<and>
      sublist ''<h4>B</h4>'' panel \<and> sublist ''<p>No data available for bar charts.</p>'' panel\<close>
    using create_html_content_panel[OF c, of "demo_row ''B'' (Geom square) NaN PyNone"]
    by (simp add: demo_row_def row_of_def)
  have 2: \<open>\<exists>panel. create_html_content
               (demo_columns, row_of [(''NAME'', Str ''E''), (''Female_BarChart'', Str ''Rg==''),
                                      (''Male_BarChart'', PyNone)]) = Inr panel \<and>
      sublist ''<h4>E</h4>'' panel \<and> sublist ''<p>No data available for bar charts.</p>'' panel\<close>
    using create_html_content_panel[OF c, of "row_of [(''NAME'', Str ''E''), (''Female_BarChart'', Str ''Rg==''),
                                      (''Male_BarChart'', PyNone)]"]
    by (simp add: row_of_def)
  have 3: \<open>\<exists>panel. create_html_content (demo_columns, demo_row ''A'' (Geom square) (Num 10) (Str ''Rg=='')) = Inr panel \<and>
      sublist ''<h4>A</h4>'' panel \<and>
      sublist ''<h5>Female Age Data</h5>\<newline>                        <img src="data:image/png;base64,Rg==" style="width: 280px; height: 150px;">'' panel \<and>
      sublist ''<h5>Male Age Data</h5>\<newline>                        <img src="data:image/png;base64,TQ==" style="width: 280px; height: 150px;">'' panel\<close>
    using create_html_content_panel[OF c, of "demo_row ''A'' (Geom square) (Num 10) (Str ''Rg=='')"]
    by (simp add: demo_row_def row_of_def)
  from c 1 2 3 show ?thesis by blast
qed

text \<open>
  Claim C10. The panel is the "no data" panel exactly when one of the two charts is
  \<^verbatim>\<open>None\<close>. Any other payload (an empty string, \<^verbatim>\<open>nan\<close>) gives the panel with the two
  charts, and its text is put as it is after \<^verbatim>\<open>base64,\<close> in the source of the image.
\<close>

theorem no_charts_iff_none:
  assumes "''Female_BarChart'' \<in> set cols" and "''Male_BarChart'' \<in> set cols"
    and "''NAME'' \<in> set cols"
  shows \<open>(create_html_content (cols, r) = Inr (no_charts_html (py_str (r ''NAME'')))
            \<longleftrightarrow> r ''Female_BarChart'' = PyNone \<or> r ''Male_BarChart'' = PyNone) \<and>
         (r ''Female_BarChart'' \<noteq> PyNone \<and> r ''Male_BarChart'' \<noteq> PyNone \<longrightarrow>
            create_html_content (cols, r) =
              Inr (charts_html (py_str (r ''NAME'')) (py_str (r ''Female_BarChart''))
                     (py_str (r ''Male_BarChart''))) \<and>
            sublist (''<img src="data:image/png;base64,'' @ py_str (r ''Female_BarChart'') @ ''"'')
              (charts_html (py_str (r ''NAME'')) (py_str (r ''Female_BarChart''))
                 (py_str (r ''Male_BarChart''))) \<and>
            sublist (''<img src="data:image/png;base64,'' @ py_str (r ''Male_BarChart'') @ ''"'')
              (charts_html (py_str (r ''NAME'')) (py_str (r ''Female_BarChart''))
                 (py_str (r ''Male_BarChart''))))\<close>
proof (cases "r ''Female_BarChart'' = PyNone \<or> r ''Male_BarChart'' = PyNone")
  case True
  then have "create_html_content (cols, r) = Inr (no_charts_html (py_str (r ''NAME'')))"
    using create_html_content_total[OF assms, of r] by auto
  with True show ?thesis by auto
next
  case False
  then have full: "create_html_content (cols, r) =
      Inr (charts_html (py_str (r ''NAME'')) (py_str (r ''Female_BarChart''))
             (py_str (r ''Male_BarChart'')))"
    using create_html_content_total[OF assms, of r] by auto
  have "charts_html (py_str (r ''NAME'')) (py_str (r ''Female_BarChart''))
             (py_str (r ''Male_BarChart'')) \<noteq> no_charts_html (py_str (r ''NAME''))"
    using panels_differ[of "py_str (r ''NAME'')"] by (rule not_sym)
  with full have "create_html_content (cols, r) \<noteq> Inr (no_charts_html (py_str (r ''NAME'')))"
    by simp
  with False full show ?thesis
    using charts_src_female charts_src_male by simp
qed

theorem no_charts_iff_none_witness:
  \<open>''Female_BarChart'' \<in> set demo_columns \<and> ''Male_BarChart'' \<in> set demo_columns \<and>
   ''NAME'' \<in> set demo_columns \<and>
   create_html_content
     (demo_columns, row_of [(''NAME'', Str ''F''), (''Female_BarChart'', Str ''''),
                            (''Male_BarChart'', NaN)])
     = Inr (charts_html ''F'' '''' ''nan'') \<and>
   sublist ''<img src="data:image/png;base64,"'' (charts_html ''F'' '''' ''nan'') \<and>
   sublist ''<img src="data:image/png;base64,nan"'' (charts_html ''F'' '''' ''nan'') \<and>
   create_html_content
     (demo_columns, row_of [(''NAME'', Str ''F''), (''Female_BarChart'', Str ''''),
                            (''Male_BarChart'', NaN)])
     \<noteq> Inr (no_charts_html ''F'') \<and>
   create_html_content
     (demo_columns, row_of [(''NAME'', Str ''G''), (''Female_BarChart'', PyNone),
                            (''Male_BarChart'', Str ''TQ=='')])
     = Inr (no_charts_html ''G'')\<close>
proof -
  have c: "''Female_BarChart'' \<in> set demo_columns" "''Male_BarChart'' \<in> set demo_columns"
    "''NAME'' \<in> set demo_columns" by (simp_all add: demo_columns_def)
  have 1: \<open>create_html_content
     (demo_columns, row_of [(''NAME'', Str ''F''), (''Female_BarChart'', Str ''''),
                            (''Male_BarChart'', NaN)])
     = Inr (charts_html ''F'' '''' ''nan'') \<and>
   sublist ''<img src="data:image/png;base64,"'' (charts_html ''F'' '''' ''nan'') \<and>
   sublist ''<img src="data:image/png;base64,nan"'' (charts_html ''F'' '''' ''nan'') \<and>
   create_html_content
     (demo_columns, row_of [(''NAME'', Str ''F''), (''Female_BarChart'', Str ''''),
                            (''Male_BarChart'', NaN)])
     \<noteq> Inr (no_charts_html ''F'')\<close>
    using no_charts_iff_none[OF c, of "row_of [(''NAME'', Str ''F''), (''Female_BarChart'', Str ''''),
                            (''Male_BarChart'', NaN)]"]
    by (auto simp add: row_of_def)
  have 2: "create_html_content
     (demo_columns, row_of [(''NAME'', Str ''G''), (''Female_BarChart'', PyNone),
                            (''Male_BarChart'', Str ''TQ=='')])
     = Inr (no_charts_html ''G'')"
    using no_charts_iff_none[OF c, of "row_of [(''NAME'', Str ''G''), (''Female_BarChart'', PyNone),
                            (''Male_BarChart'', Str ''TQ=='')]"]
    by (simp add: row_of_def)
  from c 1 2 show ?thesis by blast
qed

end
